theory Spec2Isabelle
  imports Main "HOL-Library.Word"
begin

unbundle bit_operations_syntax

section \<open>The native engine as seen from ecdsa.go\<close>

text \<open>
  ecdsa.go reaches the engine only through the cgo wrappers \<open>C.go_openssl_*\<close>. What the
  engine answers is not part of the repository, so it is a parameter of every operation:
  a record of answer functions that see the whole history of native calls made so far and
  the call being made. Nothing is assumed about the answers. What the model itself keeps
  is the bookkeeping of native objects: an allocation that the engine grants yields an
  address that is not live, and a release removes the object from the live ones.
\<close>

type_synonym byte = "8 word"

text \<open>A C pointer; \<open>0\<close> is \<open>NULL\<close> (Go's \<open>nil\<close> for a cgo pointer).\<close>

type_synonym ptr = nat

text \<open>The kinds of native object that ecdsa.go allocates and frees.\<close>

datatype kind = EC_KEY | EC_POINT | BIGNUM

text \<open>
  The native calls of ecdsa.go with their arguments. \<open>BigToBN\<close> stands for the
  conversion made inside the helper \<open>bigToBN\<close>.
\<close>

datatype call =
    EC_KEY_new_by_curve_name int
  | EC_KEY_get0_group ptr
  | EC_POINT_new ptr
  | BigToBN "int option"
  | EC_POINT_set_affine_coordinates_GFp ptr ptr ptr ptr
  | EC_KEY_set_public_key ptr ptr
  | EC_KEY_set_private_key ptr ptr
  | BN_free ptr
  | EC_POINT_free ptr
  | EC_KEY_free ptr
  | ECDSA_size ptr
  | ECDSA_sign int "byte list" nat ptr
  | ECDSA_verify int "byte list" "byte list" "32 word" ptr
  | EC_KEY_generate_key ptr
  | EC_KEY_get0_public_key ptr
  | EC_KEY_get0_private_key ptr
  | BN_new
  | EC_POINT_get_affine_coordinates_GFp ptr ptr ptr ptr

text \<open>What a native call gave back: a C \<open>int\<close>, a pointer, or nothing (\<open>void\<close>).\<close>

datatype result = RInt int | RPtr ptr | RVoid

type_synonym event = "call \<times> result"

record engine =
  NID_secp224r1 :: int
  NID_X9_62_prime256v1 :: int
  NID_secp384r1 :: int
  NID_secp521r1 :: int
  available :: "event list \<Rightarrow> call \<Rightarrow> bool"
  status :: "event list \<Rightarrow> call \<Rightarrow> int"
  inner :: "event list \<Rightarrow> call \<Rightarrow> ptr"
  sig_out :: "event list \<Rightarrow> call \<Rightarrow> byte list \<times> 32 word"
  number :: "event list \<Rightarrow> ptr \<Rightarrow> int"

text \<open>
  The fields: the four curve identifiers of the engine's header (\<open>C.NID_*\<close>, not in the
  repository); \<open>available\<close>, whether an allocating call is granted; \<open>status\<close>, the C
  \<open>int\<close> a call returns; \<open>inner\<close>, the pointer a \<open>get0\<close> call returns into an object
  the engine owns; \<open>sig_out\<close>, the bytes \<open>ECDSA_sign\<close> stores through \<open>sig\<close> and the
  value it stores through \<open>siglen\<close>; \<open>number\<close>, the integer a native bignum holds.
\<close>

record state =
  live :: "(ptr \<times> kind) list"
  trace :: "event list"
  faulted :: bool
  finalizers :: "ptr list"

text \<open>
  \<open>live\<close>: the native objects allocated and not yet freed. \<open>trace\<close>: every native call
  made so far with its result, oldest first. \<open>faulted\<close>: some call freed an object that
  was not live. \<open>finalizers\<close>: the key handles for which \<open>runtime.SetFinalizer\<close> has
  registered \<open>finalize\<close>.
\<close>

definition log :: "call \<Rightarrow> result \<Rightarrow> state \<Rightarrow> state" where
  "log c r s = s\<lparr>trace := trace s @ [(c, r)]\<rparr>"

definition fresh :: "(ptr \<times> kind) list \<Rightarrow> ptr" where
  "fresh h = Suc (fold max (map fst h) 0)"

definition alloc :: "engine \<Rightarrow> call \<Rightarrow> kind \<Rightarrow> state \<Rightarrow> ptr \<times> state" where
  "alloc eng c k s =
     (if available eng (trace s) c
      then let p = fresh (live s) in (p, log c (RPtr p) (s\<lparr>live := (p, k) # live s\<rparr>))
      else (0, log c (RPtr 0) s))"

definition release :: "call \<Rightarrow> ptr \<Rightarrow> kind \<Rightarrow> state \<Rightarrow> state" where
  "release c p k s =
     log c RVoid (s\<lparr>live := remove1 (p, k) (live s),
                    faulted := (if (p, k) \<in> set (live s) then faulted s else True)\<rparr>)"

definition invoke :: "engine \<Rightarrow> call \<Rightarrow> state \<Rightarrow> int \<times> state" where
  "invoke eng c s = (let r = status eng (trace s) c in (r, log c (RInt r) s))"

definition borrow :: "engine \<Rightarrow> call \<Rightarrow> state \<Rightarrow> ptr \<times> state" where
  "borrow eng c s = (let p = inner eng (trace s) c in (p, log c (RPtr p) s))"

text \<open>The events a run has added to the trace.\<close>

definition since :: "state \<Rightarrow> state \<Rightarrow> event list" where
  "since s s' = drop (length (trace s)) (trace s')"

subsection \<open>The cgo wrappers\<close>

definition go_openssl_EC_KEY_new_by_curve_name :: "engine \<Rightarrow> int \<Rightarrow> state \<Rightarrow> ptr \<times> state" where
  "go_openssl_EC_KEY_new_by_curve_name eng nid = alloc eng (EC_KEY_new_by_curve_name nid) EC_KEY"

definition go_openssl_EC_KEY_get0_group :: "engine \<Rightarrow> ptr \<Rightarrow> state \<Rightarrow> ptr \<times> state" where
  "go_openssl_EC_KEY_get0_group eng key = borrow eng (EC_KEY_get0_group key)"

definition go_openssl_EC_POINT_new :: "engine \<Rightarrow> ptr \<Rightarrow> state \<Rightarrow> ptr \<times> state" where
  "go_openssl_EC_POINT_new eng group' = alloc eng (EC_POINT_new group') EC_POINT"

definition go_openssl_EC_POINT_set_affine_coordinates_GFp ::
    "engine \<Rightarrow> ptr \<Rightarrow> ptr \<Rightarrow> ptr \<Rightarrow> ptr \<Rightarrow> state \<Rightarrow> int \<times> state" where
  "go_openssl_EC_POINT_set_affine_coordinates_GFp eng group' pt bx by =
     invoke eng (EC_POINT_set_affine_coordinates_GFp group' pt bx by)"

definition go_openssl_EC_KEY_set_public_key :: "engine \<Rightarrow> ptr \<Rightarrow> ptr \<Rightarrow> state \<Rightarrow> int \<times> state" where
  "go_openssl_EC_KEY_set_public_key eng key pt = invoke eng (EC_KEY_set_public_key key pt)"

definition go_openssl_EC_KEY_set_private_key :: "engine \<Rightarrow> ptr \<Rightarrow> ptr \<Rightarrow> state \<Rightarrow> int \<times> state" where
  "go_openssl_EC_KEY_set_private_key eng key bd = invoke eng (EC_KEY_set_private_key key bd)"

definition go_openssl_BN_free :: "ptr \<Rightarrow> state \<Rightarrow> state" where
  "go_openssl_BN_free bn = release (BN_free bn) bn BIGNUM"

definition go_openssl_EC_POINT_free :: "ptr \<Rightarrow> state \<Rightarrow> state" where
  "go_openssl_EC_POINT_free pt = release (EC_POINT_free pt) pt EC_POINT"

definition go_openssl_EC_KEY_free :: "ptr \<Rightarrow> state \<Rightarrow> state" where
  "go_openssl_EC_KEY_free key = release (EC_KEY_free key) key EC_KEY"

definition go_openssl_EC_KEY_generate_key :: "engine \<Rightarrow> ptr \<Rightarrow> state \<Rightarrow> int \<times> state" where
  "go_openssl_EC_KEY_generate_key eng key = invoke eng (EC_KEY_generate_key key)"

definition go_openssl_EC_KEY_get0_public_key :: "engine \<Rightarrow> ptr \<Rightarrow> state \<Rightarrow> ptr \<times> state" where
  "go_openssl_EC_KEY_get0_public_key eng key = borrow eng (EC_KEY_get0_public_key key)"

definition go_openssl_EC_KEY_get0_private_key :: "engine \<Rightarrow> ptr \<Rightarrow> state \<Rightarrow> ptr \<times> state" where
  "go_openssl_EC_KEY_get0_private_key eng key = borrow eng (EC_KEY_get0_private_key key)"

definition go_openssl_BN_new :: "engine \<Rightarrow> state \<Rightarrow> ptr \<times> state" where
  "go_openssl_BN_new eng = alloc eng BN_new BIGNUM"

definition go_openssl_EC_POINT_get_affine_coordinates_GFp ::
    "engine \<Rightarrow> ptr \<Rightarrow> ptr \<Rightarrow> ptr \<Rightarrow> ptr \<Rightarrow> state \<Rightarrow> int \<times> state" where
  "go_openssl_EC_POINT_get_affine_coordinates_GFp eng group' pt bx by =
     invoke eng (EC_POINT_get_affine_coordinates_GFp group' pt bx by)"

definition go_openssl_ECDSA_size :: "engine \<Rightarrow> ptr \<Rightarrow> state \<Rightarrow> int \<times> state" where
  "go_openssl_ECDSA_size eng key = invoke eng (ECDSA_size key)"

subsection \<open>Helpers of the package that are not in ecdsa.go\<close>

datatype asn1_error = StructuralError string | SyntaxError string | InternalError string

datatype error =
    errUnknownCurve
  | errUnsupportedCurve
  | EngineError string
  | CodecError asn1_error

text \<open>
  Modelled from the spec: \<open>newOpenSSLError\<close> is called in ecdsa.go and defined elsewhere
  in the package. The spec's error taxonomy has \<open>EngineError\<close>, a native allocation or
  operation failure that wraps a diagnostic string; the model keeps the string the caller
  passes.
\<close>

definition newOpenSSLError :: "string \<Rightarrow> error" where
  "newOpenSSLError msg = EngineError msg"

text \<open>
  Modelled from the spec: \<open>bigToBN\<close> is called in ecdsa.go and defined elsewhere in the
  package. The spec's numeric bridge has \<open>toNative\<close>, which gives a native bignum or
  null on failure; the bignum is the caller's to release. Whether the conversion
  succeeds is the engine's answer, also for a nil integer.
\<close>

definition bigToBN :: "engine \<Rightarrow> int option \<Rightarrow> state \<Rightarrow> ptr \<times> state" where
  "bigToBN eng x = alloc eng (BigToBN x) BIGNUM"

text \<open>
  Modelled from the spec: \<open>bnToBig\<close> is called in ecdsa.go and defined elsewhere in the
  package. The spec's numeric bridge has \<open>fromNative\<close>, which gives the integer a native
  bignum holds.
\<close>

definition bnToBig :: "engine \<Rightarrow> ptr \<Rightarrow> state \<Rightarrow> int option" where
  "bnToBig eng bn s = Some (number eng (trace s) bn)"

section \<open>encoding/asn1 at the type of ecdsaSignature\<close>

text \<open>
  ecdsa.go calls \<open>asn1.Marshal\<close> and \<open>asn1.Unmarshal\<close> of Go's standard library at one
  type only: a struct of two \<open>*big.Int\<close> fields without tags, which the library writes
  and reads as a universal, constructed SEQUENCE of two universal, primitive INTEGER. The
  definitions follow the library's functions of the same names on that path. The library
  walks a byte slice with an offset; here a function takes the bytes from the offset on
  and returns the bytes that are left.
\<close>

record ecdsaSignature =
  R :: "int option"
  S :: "int option"

record tagAndLength =
  t_class :: nat
  t_tag :: nat
  t_length :: nat
  t_isCompound :: bool

definition ClassUniversal :: nat where
  "ClassUniversal = 0"

definition TagInteger :: nat where
  "TagInteger = 2"

definition TagSequence :: nat where
  "TagSequence = 16"

text \<open>
  \<open>big.Int.Bytes\<close>: the absolute value as big-endian bytes without leading zero bytes,
  no byte at all for zero. \<open>big.Int.SetBytes\<close>: the unsigned big-endian value.
\<close>

fun Bytes :: "nat \<Rightarrow> byte list" where
  "Bytes n = (if n = 0 then [] else Bytes (n div 256) @ [of_nat n])"

definition SetBytes :: "byte list \<Rightarrow> nat" where
  "SetBytes bs = foldl (\<lambda>a b. a * 256 + unat b) 0 bs"

subsection \<open>Marshal\<close>

definition makeBigInt :: "int option \<Rightarrow> asn1_error + byte list" where
  "makeBigInt n' =
     (case n' of
        None \<Rightarrow> Inl (StructuralError ''empty integer'')
      | Some n \<Rightarrow>
          if n < 0
          then
            let nMinus1 = - n - 1;
                bytes = map (\<lambda>b. b XOR 0xff) (Bytes (nat nMinus1)) in
            if length bytes = 0 \<or> hd bytes AND 0x80 = 0
            then Inr (0xff # bytes)
            else Inr bytes
          else if n = 0 then Inr [0x00]
          else
            let bytes = Bytes (nat n) in
            if length bytes > 0 \<and> hd bytes AND 0x80 \<noteq> 0
            then Inr (0x00 # bytes)
            else Inr bytes)"

fun base128IntLength_loop :: "nat \<Rightarrow> nat \<Rightarrow> nat" where
  "base128IntLength_loop i l = (if i > 0 then base128IntLength_loop (i div 128) (l + 1) else l)"

definition base128IntLength :: "nat \<Rightarrow> nat" where
  "base128IntLength n = (if n = 0 then 1 else base128IntLength_loop n 0)"

fun appendBase128Int_loop :: "byte list \<Rightarrow> nat \<Rightarrow> nat \<Rightarrow> byte list" where
  "appendBase128Int_loop dst n 0 = dst"
| "appendBase128Int_loop dst n (Suc i) =
     (let o1 = (of_nat (drop_bit (i * 7) n) :: byte) AND 0x7f;
          o2 = (if i \<noteq> 0 then o1 OR 0x80 else o1)
      in appendBase128Int_loop (dst @ [o2]) n i)"

definition appendBase128Int :: "byte list \<Rightarrow> nat \<Rightarrow> byte list" where
  "appendBase128Int dst n = appendBase128Int_loop dst n (base128IntLength n)"

fun lengthLength :: "nat \<Rightarrow> nat" where
  "lengthLength i = (if i > 255 then Suc (lengthLength (i div 256)) else 1)"

fun appendLength_loop :: "byte list \<Rightarrow> nat \<Rightarrow> nat \<Rightarrow> byte list" where
  "appendLength_loop dst i 0 = dst"
| "appendLength_loop dst i (Suc n) =
     appendLength_loop (dst @ [of_nat (drop_bit (n * 8) i)]) i n"

definition appendLength :: "byte list \<Rightarrow> nat \<Rightarrow> byte list" where
  "appendLength dst i = appendLength_loop dst i (lengthLength i)"

definition appendTagAndLength :: "byte list \<Rightarrow> tagAndLength \<Rightarrow> byte list" where
  "appendTagAndLength dst0 t =
     (let b0 = (push_bit 6 (of_nat (t_class t)) :: byte);
          b1 = (if t_isCompound t then b0 OR 0x20 else b0);
          dst1 = (if t_tag t \<ge> 31
                  then appendBase128Int (dst0 @ [b1 OR 0x1f]) (t_tag t)
                  else dst0 @ [b1 OR of_nat (t_tag t)])
      in if t_length t \<ge> 128
         then
           let l = lengthLength (t_length t)
           in appendLength (dst1 @ [0x80 OR of_nat l]) (t_length t)
         else dst1 @ [of_nat (t_length t)])"

text \<open>\<open>makeField\<close> at a \<open>*big.Int\<close> field: the tag and length, then the body.\<close>

definition makeField_bigInt :: "int option \<Rightarrow> asn1_error + byte list" where
  "makeField_bigInt v =
     (case makeBigInt v of
        Inl err \<Rightarrow> Inl err
      | Inr body \<Rightarrow>
          Inr (appendTagAndLength []
                 \<lparr>t_class = ClassUniversal, t_tag = TagInteger,
                  t_length = length body, t_isCompound = False\<rparr> @ body))"

text \<open>\<open>makeField\<close> at the struct: the fields in order, the first error wins.\<close>

definition makeField_ecdsaSignature :: "ecdsaSignature \<Rightarrow> asn1_error + byte list" where
  "makeField_ecdsaSignature v =
     (case makeField_bigInt (R v) of
        Inl err \<Rightarrow> Inl err
      | Inr m0 \<Rightarrow>
          (case makeField_bigInt (S v) of
             Inl err \<Rightarrow> Inl err
           | Inr m1 \<Rightarrow>
               let body = m0 @ m1
               in Inr (appendTagAndLength []
                         \<lparr>t_class = ClassUniversal, t_tag = TagSequence,
                          t_length = length body, t_isCompound = True\<rparr> @ body)))"

definition asn1_Marshal :: "ecdsaSignature \<Rightarrow> asn1_error + byte list" where
  "asn1_Marshal val = makeField_ecdsaSignature val"

subsection \<open>Unmarshal\<close>

fun parseBase128Int_loop :: "byte list \<Rightarrow> nat \<Rightarrow> nat \<Rightarrow> asn1_error + (nat \<times> byte list)" where
  "parseBase128Int_loop [] shifted ret64 = Inl (SyntaxError ''truncated base 128 integer'')"
| "parseBase128Int_loop (b # bytes) shifted ret64 =
     (if shifted = 5 then Inl (StructuralError ''base 128 integer too large'')
      else if shifted = 0 \<and> b = 0x80 then Inl (SyntaxError ''integer is not minimally encoded'')
      else
        let ret = ret64 * 128 + unat (b AND 0x7f) in
        if b AND 0x80 = 0
        then (if ret > 2 ^ 31 - 1 then Inl (StructuralError ''base 128 integer too large'')
              else Inr (ret, bytes))
        else parseBase128Int_loop bytes (shifted + 1) ret)"

definition parseBase128Int :: "byte list \<Rightarrow> asn1_error + (nat \<times> byte list)" where
  "parseBase128Int bytes = parseBase128Int_loop bytes 0 0"

fun parseLength_loop :: "nat \<Rightarrow> byte list \<Rightarrow> nat \<Rightarrow> asn1_error + (nat \<times> byte list)" where
  "parseLength_loop 0 bytes len = Inr (len, bytes)"
| "parseLength_loop (Suc n) [] len = Inl (SyntaxError ''truncated tag or length'')"
| "parseLength_loop (Suc n) (b # bytes) len =
     (if len \<ge> 2 ^ 23 then Inl (StructuralError ''length too large'')
      else
        let len1 = len * 256 + unat b in
        if len1 = 0 then Inl (StructuralError ''superfluous leading zeros in length'')
        else parseLength_loop n bytes len1)"

definition parseTagAndLength :: "byte list \<Rightarrow> asn1_error + (tagAndLength \<times> byte list)" where
  "parseTagAndLength bytes0 =
     (case bytes0 of
        [] \<Rightarrow> Inl (InternalError ''asn1: internal error in parseTagAndLength'')
      | b # bytes1 \<Rightarrow>
          let cls = unat (drop_bit 6 b);
              compound = (b AND 0x20 = 0x20);
              tg = unat (b AND 0x1f) in
          (case (if tg = 0x1f
                 then (case parseBase128Int bytes1 of
                         Inl err \<Rightarrow> Inl err
                       | Inr (tg1, rest) \<Rightarrow>
                           if tg1 < 0x1f then Inl (SyntaxError ''non-minimal tag'')
                           else Inr (tg1, rest))
                 else Inr (tg, bytes1)) of
             Inl err \<Rightarrow> Inl err
           | Inr (tg2, bytes2) \<Rightarrow>
               (case bytes2 of
                  [] \<Rightarrow> Inl (SyntaxError ''truncated tag or length'')
                | b2 # bytes3 \<Rightarrow>
                    if b2 AND 0x80 = 0
                    then Inr (\<lparr>t_class = cls, t_tag = tg2,
                               t_length = unat (b2 AND 0x7f), t_isCompound = compound\<rparr>, bytes3)
                    else
                      let numBytes = unat (b2 AND 0x7f) in
                      if numBytes = 0 then Inl (SyntaxError ''indefinite length found (not DER)'')
                      else
                        (case parseLength_loop numBytes bytes3 0 of
                           Inl err \<Rightarrow> Inl err
                         | Inr (len, rest) \<Rightarrow>
                             if len < 0x80 then Inl (StructuralError ''non-minimal length'')
                             else Inr (\<lparr>t_class = cls, t_tag = tg2,
                                        t_length = len, t_isCompound = compound\<rparr>, rest)))))"

definition checkInteger :: "byte list \<Rightarrow> asn1_error option" where
  "checkInteger bytes =
     (if length bytes = 0 then Some (StructuralError ''empty integer'')
      else if length bytes = 1 then None
      else if (bytes ! 0 = 0 \<and> bytes ! 1 AND 0x80 = 0)
              \<or> (bytes ! 0 = 0xff \<and> bytes ! 1 AND 0x80 = 0x80)
           then Some (StructuralError ''integer not minimally-encoded'')
           else None)"

definition parseBigInt :: "byte list \<Rightarrow> asn1_error + int" where
  "parseBigInt bytes =
     (case checkInteger bytes of
        Some err \<Rightarrow> Inl err
      | None \<Rightarrow>
          if length bytes > 0 \<and> bytes ! 0 AND 0x80 = 0x80
          then
            let notBytes = map (\<lambda>b. NOT b) bytes
            in Inr (- (int (SetBytes notBytes) + 1))
          else Inr (int (SetBytes bytes)))"

text \<open>
  \<open>parseField\<close> at a \<open>*big.Int\<close> field. The library's message for a tag that does not
  match goes on with the tags it saw; the model keeps the fixed start of it.
\<close>

definition tags_dont_match :: string where
  "tags_dont_match = ''tags don'' @ [CHR 0x27] @ ''t match''"

definition parseField_bigInt :: "byte list \<Rightarrow> asn1_error + (int \<times> byte list)" where
  "parseField_bigInt bytes =
     (if bytes = [] then Inl (SyntaxError ''sequence truncated'')
      else
        (case parseTagAndLength bytes of
           Inl err \<Rightarrow> Inl err
         | Inr (t, rest) \<Rightarrow>
             if (t_class t \<noteq> ClassUniversal \<or> t_tag t \<noteq> TagInteger) \<or> t_isCompound t \<noteq> False
             then Inl (StructuralError tags_dont_match)
             else if t_length t > length rest then Inl (SyntaxError ''data truncated'')
             else
               let innerBytes = take (t_length t) rest in
               (case parseBigInt innerBytes of
                  Inl err \<Rightarrow> Inl err
                | Inr parsedInt \<Rightarrow> Inr (parsedInt, drop (t_length t) rest))))"

text \<open>
  \<open>parseField\<close> at the struct: the fields are read in order from the bytes of the
  sequence; bytes of the sequence after the last field are allowed.
\<close>

definition parseField_ecdsaSignature ::
    "byte list \<Rightarrow> asn1_error + (ecdsaSignature \<times> byte list)" where
  "parseField_ecdsaSignature bytes =
     (if bytes = [] then Inl (SyntaxError ''sequence truncated'')
      else
        (case parseTagAndLength bytes of
           Inl err \<Rightarrow> Inl err
         | Inr (t, rest) \<Rightarrow>
             if (t_class t \<noteq> ClassUniversal \<or> t_tag t \<noteq> TagSequence) \<or> t_isCompound t \<noteq> True
             then Inl (StructuralError tags_dont_match)
             else if t_length t > length rest then Inl (SyntaxError ''data truncated'')
             else
               let innerBytes = take (t_length t) rest in
               (case parseField_bigInt innerBytes of
                  Inl err \<Rightarrow> Inl err
                | Inr (r, inner1) \<Rightarrow>
                    (case parseField_bigInt inner1 of
                       Inl err \<Rightarrow> Inl err
                     | Inr (s, inner2) \<Rightarrow>
                         Inr (\<lparr>R = Some r, S = Some s\<rparr>, drop (t_length t) rest)))))"

text \<open>\<open>asn1.Unmarshal\<close> returns the bytes after the value as \<open>rest\<close>.\<close>

definition asn1_Unmarshal :: "byte list \<Rightarrow> asn1_error + (ecdsaSignature \<times> byte list)" where
  "asn1_Unmarshal b = parseField_ecdsaSignature b"

section \<open>ecdsa.go\<close>

record PrivateKeyECDSA =
  key :: ptr

record PublicKeyECDSA =
  key :: ptr

definition PrivateKeyECDSA_finalize :: "PrivateKeyECDSA \<Rightarrow> state \<Rightarrow> state" where
  "PrivateKeyECDSA_finalize k = go_openssl_EC_KEY_free (PrivateKeyECDSA.key k)"

definition PublicKeyECDSA_finalize :: "PublicKeyECDSA \<Rightarrow> state \<Rightarrow> state" where
  "PublicKeyECDSA_finalize k = go_openssl_EC_KEY_free (PublicKeyECDSA.key k)"

text \<open>
  \<open>runtime.SetFinalizer(k, finalize)\<close>: the handle of \<open>k\<close> is from now on released by
  the collector.
\<close>

definition SetFinalizer :: "ptr \<Rightarrow> state \<Rightarrow> state" where
  "SetFinalizer p s = s\<lparr>finalizers := p # finalizers s\<rparr>"

text \<open>
  A Go function that returns \<open>(value, error)\<close> returns a pair here, \<open>None\<close> for a nil
  error and \<open>0\<close> or \<open>None\<close> for a nil pointer, so that what each \<open>return\<close> statement
  gives is visible.
\<close>

definition curveNID :: "engine \<Rightarrow> string \<Rightarrow> int \<times> error option" where
  "curveNID eng curve =
     (if curve = ''P-224'' then (NID_secp224r1 eng, None)
      else if curve = ''P-256'' then (NID_X9_62_prime256v1 eng, None)
      else if curve = ''P-384'' then (NID_secp384r1 eng, None)
      else if curve = ''P-521'' then (NID_secp521r1 eng, None)
      else (0, Some errUnknownCurve))"

definition newECKey ::
    "engine \<Rightarrow> string \<Rightarrow> int option \<Rightarrow> int option \<Rightarrow> state \<Rightarrow> (ptr \<times> error option) \<times> state" where
  "newECKey eng curve X Y s0 =
     (let (nid, err) = curveNID eng curve in
      if err \<noteq> None then ((0, err), s0)
      else
        let (key, s1) = go_openssl_EC_KEY_new_by_curve_name eng nid s0 in
        if key = 0
        then ((0, Some (newOpenSSLError ''EC_KEY_new_by_curve_name failed'')), s1)
        else
          let (group', s2) = go_openssl_EC_KEY_get0_group eng key s1;
              (pt, s3) = go_openssl_EC_POINT_new eng group' s2 in
          if pt = 0
          then ((0, Some (newOpenSSLError ''EC_POINT_new failed'')),
                go_openssl_EC_KEY_free key s3)
          else
            let (bx, s4) = bigToBN eng X s3;
                (by, s5) = bigToBN eng Y s4;
                (ok, s6) =
                  (if bx \<noteq> 0 \<and> by \<noteq> 0
                   then
                     let (r1, t1) =
                           go_openssl_EC_POINT_set_affine_coordinates_GFp eng group' pt bx by s5 in
                     if r1 \<noteq> 0
                     then let (r2, t2) = go_openssl_EC_KEY_set_public_key eng key pt t1
                          in (r2 \<noteq> 0, t2)
                     else (False, t1)
                   else (False, s5));
                s7 = (if bx \<noteq> 0 then go_openssl_BN_free bx s6 else s6);
                s8 = (if by \<noteq> 0 then go_openssl_BN_free by s7 else s7);
                s9 = go_openssl_EC_POINT_free pt s8 in
            if \<not> ok
            then ((0, Some (newOpenSSLError ''EC_POINT_free failed'')),
                  go_openssl_EC_KEY_free key s9)
            else ((key, None), s9))"

definition NewPublicKeyECDSA ::
    "engine \<Rightarrow> string \<Rightarrow> int option \<Rightarrow> int option \<Rightarrow> state
       \<Rightarrow> (PublicKeyECDSA option \<times> error option) \<times> state" where
  "NewPublicKeyECDSA eng curve X Y s0 =
     (let ((key, err), s1) = newECKey eng curve X Y s0 in
      if err \<noteq> None then ((None, err), s1)
      else
        let k = \<lparr>PublicKeyECDSA.key = key\<rparr>
        in ((Some k, None), SetFinalizer (PublicKeyECDSA.key k) s1))"

definition NewPrivateKeyECDSA ::
    "engine \<Rightarrow> string \<Rightarrow> int option \<Rightarrow> int option \<Rightarrow> int option \<Rightarrow> state
       \<Rightarrow> (PrivateKeyECDSA option \<times> error option) \<times> state" where
  "NewPrivateKeyECDSA eng curve X Y D s0 =
     (let ((key, err), s1) = newECKey eng curve X Y s0 in
      if err \<noteq> None then ((None, err), s1)
      else
        let (bd, s2) = bigToBN eng D s1;
            (ok, s3) =
              (if bd \<noteq> 0
               then let (r, t) = go_openssl_EC_KEY_set_private_key eng key bd s2 in (r \<noteq> 0, t)
               else (False, s2));
            s4 = (if bd \<noteq> 0 then go_openssl_BN_free bd s3 else s3) in
        if \<not> ok
        then ((None, Some (newOpenSSLError ''EC_KEY_set_private_key failed'')),
              go_openssl_EC_KEY_free key s4)
        else
          let k = \<lparr>PrivateKeyECDSA.key = key\<rparr>
          in ((Some k, None), SetFinalizer (PrivateKeyECDSA.key k) s4))"

text \<open>
  A Go function panics where it indexes or slices out of range; \<open>Panics\<close> is that
  outcome, \<open>Returns\<close> the values of a \<open>return\<close> statement.
\<close>

datatype 'a outcome = Returns 'a | Panics

text \<open>
  \<open>ECDSA_sign\<close> stores the signature through \<open>sig\<close> and its length through \<open>siglen\<close>.
  The Go slice keeps its length: of what the engine stores, the slice shows the bytes
  that fall inside it.
\<close>

definition go_openssl_ECDSA_sign ::
    "engine \<Rightarrow> int \<Rightarrow> byte list \<Rightarrow> byte list \<Rightarrow> ptr \<Rightarrow> state
       \<Rightarrow> (int \<times> byte list \<times> 32 word) \<times> state" where
  "go_openssl_ECDSA_sign eng typ dgst sig key' s =
     (let c = ECDSA_sign typ dgst (length sig) key';
          r = status eng (trace s) c;
          (written, sigLen) = sig_out eng (trace s) c
      in ((r, take (length sig) written @ drop (length written) sig, sigLen),
          log c (RInt r) s))"

definition go_openssl_ECDSA_verify ::
    "engine \<Rightarrow> int \<Rightarrow> byte list \<Rightarrow> byte list \<Rightarrow> 32 word \<Rightarrow> ptr \<Rightarrow> state \<Rightarrow> int \<times> state" where
  "go_openssl_ECDSA_verify eng typ dgst sig sigLen key' =
     invoke eng (ECDSA_verify typ dgst sig sigLen key')"

text \<open>
  \<open>runtime.KeepAlive\<close> has no effect on the values computed; it is the identity here.
\<close>

definition KeepAlive :: "'a \<Rightarrow> state \<Rightarrow> state" where
  "KeepAlive k s = s"

definition SignMarshalECDSA ::
    "engine \<Rightarrow> PrivateKeyECDSA \<Rightarrow> byte list \<Rightarrow> state
       \<Rightarrow> (byte list \<times> error option) outcome \<times> state" where
  "SignMarshalECDSA eng priv hash s0 =
     (let (size, s1) = go_openssl_ECDSA_size eng (PrivateKeyECDSA.key priv) s0 in
      if size < 0 then (Panics, s1)
      else
        let sig = replicate (nat size) (0 :: byte) in
        if length sig = 0 then (Panics, s1)
        else
          let ((r, sig1, sigLen), s2) =
                go_openssl_ECDSA_sign eng 0 hash sig (PrivateKeyECDSA.key priv) s1 in
          if r = 0 then (Returns ([], Some (newOpenSSLError ''ECDSA_sign failed'')), s2)
          else
            let s3 = KeepAlive priv s2 in
            if unat sigLen > length sig1 then (Panics, s3)
            else (Returns (take (unat sigLen) sig1, None), s3))"

definition SignECDSA ::
    "engine \<Rightarrow> PrivateKeyECDSA \<Rightarrow> byte list \<Rightarrow> state
       \<Rightarrow> (int option \<times> int option \<times> error option) outcome \<times> state" where
  "SignECDSA eng priv hash s0 =
     (case SignMarshalECDSA eng priv hash s0 of
        (Panics, s1) \<Rightarrow> (Panics, s1)
      | (Returns (sig, err), s1) \<Rightarrow>
          if err \<noteq> None then (Returns (None, None, err), s1)
          else
            (case asn1_Unmarshal sig of
               Inl err1 \<Rightarrow> (Returns (None, None, Some (CodecError err1)), s1)
             | Inr (esig, rest) \<Rightarrow> (Returns (R esig, S esig, None), s1)))"

definition VerifyECDSA ::
    "engine \<Rightarrow> PublicKeyECDSA \<Rightarrow> byte list \<Rightarrow> int option \<Rightarrow> int option \<Rightarrow> state
       \<Rightarrow> bool outcome \<times> state" where
  "VerifyECDSA eng pub hash r s st0 =
     (case asn1_Marshal \<lparr>R = r, S = s\<rparr> of
        Inl err \<Rightarrow> (Returns False, st0)
      | Inr sig \<Rightarrow>
          if length sig = 0 then (Panics, st0)
          else
            let (v, st1) =
                  go_openssl_ECDSA_verify eng 0 hash sig (of_nat (length sig))
                    (PublicKeyECDSA.key pub) st0;
                ok = (v > 0);
                st2 = KeepAlive pub st1
            in (Returns ok, st2))"

text \<open>
  \<open>defer f\<close>: the rest of the function runs, its \<open>return\<close> values are computed, and
  then \<open>f\<close> runs, on every path.
\<close>

definition deferred :: "(state \<Rightarrow> state) \<Rightarrow> (state \<Rightarrow> 'a \<times> state) \<Rightarrow> state \<Rightarrow> 'a \<times> state" where
  "deferred f body s = (let (r, s') = body s in (r, f s'))"

definition GenerateKeyECDSA ::
    "engine \<Rightarrow> string \<Rightarrow> state
       \<Rightarrow> (int option \<times> int option \<times> int option \<times> error option) \<times> state" where
  "GenerateKeyECDSA eng curve s0 =
     (let (nid, err) = curveNID eng curve in
      if err \<noteq> None then ((None, None, None, err), s0)
      else
        let (key, s1) = go_openssl_EC_KEY_new_by_curve_name eng nid s0 in
        if key = 0
        then ((None, None, None, Some (newOpenSSLError ''EC_KEY_new_by_curve_name failed'')), s1)
        else
          deferred (go_openssl_EC_KEY_free key) (\<lambda>s1.
            let (r, s2) = go_openssl_EC_KEY_generate_key eng key s1 in
            if r = 0
            then ((None, None, None, Some (newOpenSSLError ''EC_KEY_generate_key failed'')), s2)
            else
              let (group', s3) = go_openssl_EC_KEY_get0_group eng key s2;
                  (pt, s4) = go_openssl_EC_KEY_get0_public_key eng key s3;
                  (bd, s5) = go_openssl_EC_KEY_get0_private_key eng key s4 in
              if pt = 0 \<or> bd = 0
              then ((None, None, None,
                     Some (newOpenSSLError ''EC_KEY_get0_private_key failed'')), s5)
              else
                let (bx, s6) = go_openssl_BN_new eng s5 in
                if bx = 0
                then ((None, None, None, Some (newOpenSSLError ''BN_new failed'')), s6)
                else
                  deferred (go_openssl_BN_free bx) (\<lambda>s6.
                    let (by, s7) = go_openssl_BN_new eng s6 in
                    if by = 0
                    then ((None, None, None, Some (newOpenSSLError ''BN_new failed'')), s7)
                    else
                      deferred (go_openssl_BN_free by) (\<lambda>s7.
                        let (r, s8) =
                              go_openssl_EC_POINT_get_affine_coordinates_GFp
                                eng group' pt bx by s7 in
                        if r = 0
                        then ((None, None, None,
                               Some (newOpenSSLError
                                       ''EC_POINT_get_affine_coordinates_GFp failed'')), s8)
                        else ((bnToBig eng bx s8, bnToBig eng by s8, bnToBig eng bd s8, None),
                              s8)) s7) s6) s1)"

subsection \<open>A concrete engine and state\<close>

text \<open>
  An engine that grants every allocation and reports success for every call (72 as the
  largest size of a signature), with the header's values of the curve identifiers, and a
  state with nothing allocated. They give the theorems below concrete runs.
\<close>

definition engine_granting :: engine where
  "engine_granting =
     \<lparr>NID_secp224r1 = 713, NID_X9_62_prime256v1 = 415, NID_secp384r1 = 715,
      NID_secp521r1 = 716,
      available = (\<lambda>t c. True),
      status = (\<lambda>t c. case c of ECDSA_size k \<Rightarrow> 72 | _ \<Rightarrow> 1),
      inner = (\<lambda>t c. 7),
      sig_out = (\<lambda>t c. ([0x30, 0x06, 0x02, 0x01, 0x01, 0x02, 0x01, 0x02], 8)),
      number = (\<lambda>t p. 5)\<rparr>"


definition state_empty :: state where
  "state_empty = \<lparr>live = [], trace = [], faulted = False, finalizers = []\<rparr>"

section \<open>Bookkeeping of native objects\<close>

lemma fold_max_ge: "(a::nat) \<le> fold max xs a"
  by (induction xs arbitrary: a) (auto intro: order_trans [OF max.cobounded2])

lemma fold_max_mem: "x \<in> set xs \<Longrightarrow> (x::nat) \<le> fold max xs a"
proof (induction xs arbitrary: a)
  case Nil
  then show ?case by simp
next
  case (Cons y ys)
  show ?case
  proof (cases "x = y")
    case True
    have "y \<le> max y a" by simp
    also have "\<dots> \<le> fold max ys (max y a)" by (rule fold_max_ge)
    finally show ?thesis using True by simp
  next
    case False
    with Cons.prems have "x \<in> set ys" by simp
    then show ?thesis using Cons.IH by simp
  qed
qed

lemma fresh_gt: "(p, k) \<in> set h \<Longrightarrow> p < fresh h"
proof -
  assume "(p, k) \<in> set h"
  then have "p \<in> set (map fst h)" by force
  then have "p \<le> fold max (map fst h) 0" by (rule fold_max_mem)
  then show ?thesis by (simp add: fresh_def)
qed

lemma fresh_notin [simp]: "(fresh h, k) \<notin> set h"
  using fresh_gt [of "fresh h" k h] by auto

lemma fresh_notin_fst [simp]: "fresh h \<notin> fst ` set h"
  using fresh_gt [of "fresh h" _ h] by force

lemma fresh_nonzero [simp]: "fresh h \<noteq> 0"
  by (simp add: fresh_def)

lemma fresh_pos [simp]: "0 < fresh h"
  by (simp add: fresh_def)

lemma log_simps [simp]:
  "live (log c r s) = live s" "faulted (log c r s) = faulted s"
  "finalizers (log c r s) = finalizers s" "trace (log c r s) = trace s @ [(c, r)]"
  by (simp_all add: log_def)

lemma release_simps [simp]:
  "live (release c p k s) = remove1 (p, k) (live s)"
  "faulted (release c p k s) = (if (p, k) \<in> set (live s) then faulted s else True)"
  "finalizers (release c p k s) = finalizers s"
  "trace (release c p k s) = trace s @ [(c, RVoid)]"
  by (simp_all add: release_def)







lemma since_refl [simp]: "since s s = []"
  by (simp add: since_def)

section \<open>Curve names\<close>

lemma newECKey_unknown:
  assumes "curve \<notin> {''P-224'', ''P-256'', ''P-384'', ''P-521''}"
  shows "newECKey eng curve X Y s = ((0, Some errUnknownCurve), s)"
  using assms by (simp add: newECKey_def curveNID_def)

text \<open>
  Claim C2. \<open>curveNID\<close> succeeds for exactly the four names P-224, P-256, P-384 and
  P-521 and gives the engine's identifier of that curve. For any other name it gives
  \<open>errUnknownCurve\<close>, and every operation that resolves a curve name then returns that
  error with the state as it was: no native call has been made and nothing is allocated.
\<close>

theorem curveNID_resolves:
  "curveNID eng ''P-224'' = (NID_secp224r1 eng, None) \<and>
   curveNID eng ''P-256'' = (NID_X9_62_prime256v1 eng, None) \<and>
   curveNID eng ''P-384'' = (NID_secp384r1 eng, None) \<and>
   curveNID eng ''P-521'' = (NID_secp521r1 eng, None) \<and>
   (snd (curveNID eng curve) = None \<longleftrightarrow> curve \<in> {''P-224'', ''P-256'', ''P-384'', ''P-521''}) \<and>
   (curve \<notin> {''P-224'', ''P-256'', ''P-384'', ''P-521''} \<longrightarrow>
      curveNID eng curve = (0, Some errUnknownCurve) \<and>
      newECKey eng curve X Y s = ((0, Some errUnknownCurve), s) \<and>
      NewPublicKeyECDSA eng curve X Y s = ((None, Some errUnknownCurve), s) \<and>
      NewPrivateKeyECDSA eng curve X Y D s = ((None, Some errUnknownCurve), s) \<and>
      GenerateKeyECDSA eng curve s = ((None, None, None, Some errUnknownCurve), s))"
proof -
  have known: "curveNID eng ''P-224'' = (NID_secp224r1 eng, None)"
      "curveNID eng ''P-256'' = (NID_X9_62_prime256v1 eng, None)"
      "curveNID eng ''P-384'' = (NID_secp384r1 eng, None)"
      "curveNID eng ''P-521'' = (NID_secp521r1 eng, None)"
    by (simp_all add: curveNID_def)
  have iff: "snd (curveNID eng curve) = None \<longleftrightarrow>
      curve \<in> {''P-224'', ''P-256'', ''P-384'', ''P-521''}"
    by (simp add: curveNID_def)
  have other: "curveNID eng curve = (0, Some errUnknownCurve) \<and>
      newECKey eng curve X Y s = ((0, Some errUnknownCurve), s) \<and>
      NewPublicKeyECDSA eng curve X Y s = ((None, Some errUnknownCurve), s) \<and>
      NewPrivateKeyECDSA eng curve X Y D s = ((None, Some errUnknownCurve), s) \<and>
      GenerateKeyECDSA eng curve s = ((None, None, None, Some errUnknownCurve), s)"
    if "curve \<notin> {''P-224'', ''P-256'', ''P-384'', ''P-521''}"
    using that newECKey_unknown [OF that]
    by (simp add: curveNID_def NewPublicKeyECDSA_def NewPrivateKeyECDSA_def
        GenerateKeyECDSA_def)
  from known iff other show ?thesis by blast
qed

theorem curveNID_resolves_witness:
  "''P-25'' \<notin> {''P-224'', ''P-256'', ''P-384'', ''P-521''} \<and>
   snd (curveNID engine_granting ''P-25'') \<noteq> None \<and>
   GenerateKeyECDSA engine_granting ''P-25'' state_empty
     = ((None, None, None, Some errUnknownCurve), state_empty)"
proof -
  have h: "''P-25'' \<notin> {''P-224'', ''P-256'', ''P-384'', ''P-521''}" by simp
  note t = curveNID_resolves [of engine_granting "''P-25''" None None state_empty None]
  from t have a: "snd (curveNID engine_granting ''P-25'') = None \<longleftrightarrow>
      ''P-25'' \<in> {''P-224'', ''P-256'', ''P-384'', ''P-521''}"
    by (elim conjE)
  from t have b: "''P-25'' \<notin> {''P-224'', ''P-256'', ''P-384'', ''P-521''} \<longrightarrow>
      GenerateKeyECDSA engine_granting ''P-25'' state_empty
        = ((None, None, None, Some errUnknownCurve), state_empty)"
    by (elim conjE) (intro impI, elim impE, assumption, elim conjE)
  from a b h show ?thesis by (intro conjI) (rule h, simp, simp)
qed

section \<open>Key construction\<close>






end
